theory Spec2Isabelle
  imports Main "HOL-Library.Word"
begin

section \<open>Go values used by the packages\<close>

text \<open>
  Go's \<open>int\<close> is a signed machine integer; the model fixes the 64-bit width of the
  common platforms. Comparisons are the signed ones (\<open><s\<close>, \<open>\<le>s\<close>) and \<open>sint\<close>
  reads the value.
\<close>

type_synonym goint = "64 word"

text \<open>
  The built-in interface \<open>error\<close>. A non-nil error is either the \<open>*errors.errorString\<close>
  that \<open>errors.New\<close> and \<open>fmt.Errorf\<close> (without \<open>%w\<close>) build, or a value of any other
  dynamic type a store may return; the latter carries its message and an opaque payload
  \<open>'x\<close>. The nil error is \<open>None\<close> of \<open>'x error option\<close>.
\<close>

datatype 'x error = errorString string | otherError string 'x

fun Error :: "'x error \<Rightarrow> string" where
  "Error (errorString s) = s"
| "Error (otherError s x) = s"

definition errors_New :: "string \<Rightarrow> 'x error" where
  "errors_New s = errorString s"

text \<open>
  A call either returns or panics. The state a call leaves behind is kept in both cases
  (a panic does not undo what was done before it).
\<close>

datatype panic =
    nil_pointer_dereference
  | type_assertion_failed
  | index_out_of_range
  | unexpected_method_call

datatype 'a outcome = Return 'a | Panic panic

subsection \<open>Formatting with \<open>%d\<close>\<close>

text \<open>
  \<open>fmt.Errorf("result too high: %d", result)\<close> formats an \<open>int\<close> in base 10: a minus
  sign for a negative value, then the digits of the magnitude, most significant first,
  with no padding. \<open>digit\<close> indexes the digit alphabet as Go's \<open>strconv\<close> does.
\<close>

definition digit :: "nat \<Rightarrow> char" where
  "digit d = ''0123456789'' ! d"

function digits :: "nat \<Rightarrow> string" where
  "digits n = (if n < 10 then [digit n] else digits (n div 10) @ [digit (n mod 10)])"
  by pat_completeness auto
termination
  by (relation "measure id") auto

declare digits.simps [simp del]

definition fmt_d :: "goint \<Rightarrow> string" where
  "fmt_d v =
     (if sint v < 0 then CHR ''-'' # digits (nat (- sint v)) else digits (nat (sint v)))"

text \<open>\<open>fmt.Errorf(prefix + "%d", v)\<close>: a format that is literal text followed by one \<open>%d\<close>.\<close>

definition fmt_Errorf_d :: "string \<Rightarrow> goint \<Rightarrow> 'x error" where
  "fmt_Errorf_d prefix v = errors_New (prefix @ fmt_d v)"

text \<open>
  Reading a decimal numeral back: the value of a string of digit characters. It is used
  only to state that \<open>fmt_d\<close> writes the decimal representation.
\<close>

definition digit_value :: "char \<Rightarrow> nat" where
  "digit_value c = of_char c - 48"

definition decimal_value :: "string \<Rightarrow> nat" where
  "decimal_value cs = foldl (\<lambda>a c. 10 * a + digit_value c) 0 cs"

definition is_digit :: "char \<Rightarrow> bool" where
  "is_digit c = (48 \<le> (of_char c :: nat) \<and> (of_char c :: nat) \<le> 57)"

section \<open>Package database\<close>

text \<open>
  \<open>type Store interface { Get(ID int) (int, error) }\<close>. A non-nil interface value is
  its method, which runs on the state \<open>'s\<close> its implementation owns and returns the
  Go result pair together with the state it leaves; the nil interface is \<open>None\<close> of
  \<open>('s, 'x) Store option\<close>.
\<close>

record ('s, 'x) Store =
  Get :: "goint \<Rightarrow> 's \<Rightarrow> (goint \<times> 'x error option) outcome \<times> 's"

text \<open>
  The production store: \<open>type store struct { db *sql.DB }\<close>. The connection is opaque
  (\<open>'db\<close>); \<open>Get\<close> does not touch it and returns \<open>0, nil\<close>.
\<close>

record 'db store =
  db :: 'db

definition store_Get :: "'db store \<Rightarrow> goint \<Rightarrow> 's \<Rightarrow> (goint \<times> 'x error option) outcome \<times> 's" where
  "store_Get d ID \<sigma> = (Return (0, None), \<sigma>)"

definition NewStore :: "'db \<Rightarrow> ('s, 'x) Store option" where
  "NewStore db' = Some \<lparr>Get = store_Get \<lparr>db = db'\<rparr>\<rparr>"

subsection \<open>The mock store\<close>

text \<open>
  \<open>MockStore\<close> embeds testify's \<open>mock.Mock\<close>, which lies outside the repository. The
  model keeps the part \<open>MockStore.Get\<close> and the tests use: expectations registered with
  \<open>On(...).Return(...)\<close>, the record of the calls made, \<open>Called\<close>, which looks the
  arguments up among the expectations, records the call and hands back the registered
  return values (and panics on a call nobody registered, the mock having no test
  attached), the accessors \<open>Get(i)\<close> and \<open>Error(i)\<close> of the returned arguments, and
  \<open>AssertExpectations\<close>. Arguments and return values are \<open>interface{}\<close> values.
\<close>

datatype 'x object = int_object goint | error_object "'x error" | nil_object

record 'x Call =
  Method :: string
  Arguments :: "'x object list"
  ReturnArguments :: "'x object list"

record 'x Mock =
  ExpectedCalls :: "'x Call list"
  Calls :: "'x Call list"

record 'x MockStore =
  Mock :: "'x Mock"

definition new_MockStore :: "'x MockStore" where
  "new_MockStore = \<lparr>Mock = \<lparr>ExpectedCalls = [], Calls = []\<rparr>\<rparr>"

definition On_Return :: "string \<Rightarrow> 'x object list \<Rightarrow> 'x object list \<Rightarrow> 'x MockStore \<Rightarrow> 'x MockStore" where
  "On_Return methodName arguments returnArguments m =
     m\<lparr>Mock := (Mock m)\<lparr>ExpectedCalls := ExpectedCalls (Mock m) @
        [\<lparr>Method = methodName, Arguments = arguments, ReturnArguments = returnArguments\<rparr>]\<rparr>\<rparr>"

definition Called :: "string \<Rightarrow> 'x object list \<Rightarrow> 'x Mock \<Rightarrow> 'x object list outcome \<times> 'x Mock" where
  "Called methodName arguments m =
     (case find (\<lambda>c. Method c = methodName \<and> Arguments c = arguments) (ExpectedCalls m) of
        None \<Rightarrow> (Panic unexpected_method_call, m)
      | Some c \<Rightarrow>
          (Return (ReturnArguments c),
           m\<lparr>Calls := Calls m @
              [\<lparr>Method = methodName, Arguments = arguments, ReturnArguments = []\<rparr>]\<rparr>))"

definition Arguments_Get :: "'x object list \<Rightarrow> nat \<Rightarrow> 'x object outcome" where
  "Arguments_Get args index =
     (if index < length args then Return (args ! index) else Panic index_out_of_range)"

definition Arguments_Error :: "'x object list \<Rightarrow> nat \<Rightarrow> 'x error option outcome" where
  "Arguments_Error args index =
     (case Arguments_Get args index of
        Panic p \<Rightarrow> Panic p
      | Return nil_object \<Rightarrow> Return None
      | Return (error_object e) \<Rightarrow> Return (Some e)
      | Return (int_object n) \<Rightarrow> Panic type_assertion_failed)"

definition AssertExpectations :: "'x Mock \<Rightarrow> bool" where
  "AssertExpectations m =
     list_all (\<lambda>e. list_ex (\<lambda>c. Method c = Method e \<and> Arguments c = Arguments e) (Calls m))
       (ExpectedCalls m)"

text \<open>
  \<open>func (m *MockStore) Get(ID int) (int, error)\<close>:
  \<open>returnVals := m.Called(ID); return returnVals.Get(0).(int), returnVals.Error(1)\<close>.
  The state is the mock the pointer \<open>m\<close> refers to.
\<close>

definition MockStore_Get :: "goint \<Rightarrow> 'x MockStore \<Rightarrow> (goint \<times> 'x error option) outcome \<times> 'x MockStore" where
  "MockStore_Get ID m =
     (case Called ''Get'' [int_object ID] (Mock m) of
        (Panic p, mock') \<Rightarrow> (Panic p, m\<lparr>Mock := mock'\<rparr>)
      | (Return returnVals, mock') \<Rightarrow>
          (case Arguments_Get returnVals 0 of
             Panic p \<Rightarrow> (Panic p, m\<lparr>Mock := mock'\<rparr>)
           | Return (int_object result) \<Rightarrow>
               (case Arguments_Error returnVals 1 of
                  Panic p \<Rightarrow> (Panic p, m\<lparr>Mock := mock'\<rparr>)
                | Return err \<Rightarrow> (Return (result, err), m\<lparr>Mock := mock'\<rparr>))
           | Return (error_object e) \<Rightarrow> (Panic type_assertion_failed, m\<lparr>Mock := mock'\<rparr>)
           | Return nil_object \<Rightarrow> (Panic type_assertion_failed, m\<lparr>Mock := mock'\<rparr>)))"

text \<open>A \<open>*MockStore\<close> as a \<open>Store\<close> interface value.\<close>

definition MockStore_Store :: "('x MockStore, 'x) Store option" where
  "MockStore_Store = Some \<lparr>Get = MockStore_Get\<rparr>"

section \<open>Package service\<close>

text \<open>\<open>type Service struct { Store database.Store }\<close>\<close>

record ('s, 'x) Service =
  Store :: "('s, 'x) Store option"

text \<open>
  \<open>func (s *Service) GetNumber(ID int) error\<close>. The receiver is a pointer: \<open>None\<close> is
  the nil pointer, \<open>Some s\<close> points to the Service \<open>s\<close>. The result is the outcome of
  the call, the Service the receiver points to after the call, and the state the store
  was left in. Reading \<open>s.Store\<close> through a nil receiver and calling \<open>Get\<close> on a nil
  interface are the two nil dereferences of the body.
\<close>

fun GetNumber :: "('s, 'x) Service option \<Rightarrow> goint \<Rightarrow> 's
    \<Rightarrow> 'x error option outcome \<times> ('s, 'x) Service option \<times> 's" where
  "GetNumber None ID \<sigma> = (Panic nil_pointer_dereference, None, \<sigma>)"
| "GetNumber (Some s) ID \<sigma> =
     (case Store s of
        None \<Rightarrow> (Panic nil_pointer_dereference, Some s, \<sigma>)
      | Some store \<Rightarrow>
          (case Get store ID \<sigma> of
             (Panic p, \<sigma>') \<Rightarrow> (Panic p, Some s, \<sigma>')
           | (Return (result, err), \<sigma>') \<Rightarrow>
               if err \<noteq> None then (Return err, Some s, \<sigma>')
               else if 10 <s result
                 then (Return (Some (fmt_Errorf_d ''result too high: '' result)), Some s, \<sigma>')
               else (Return None, Some s, \<sigma>')))"

text \<open>
  \<open>func NewGetNumber(store database.Store) func(int) error\<close>: the closure captures
  \<open>store\<close>; there is no Service.
\<close>

definition NewGetNumber :: "('s, 'x) Store option \<Rightarrow> goint \<Rightarrow> 's \<Rightarrow> 'x error option outcome \<times> 's" where
  "NewGetNumber store =
     (\<lambda>ID \<sigma>.
        case store of
          None \<Rightarrow> (Panic nil_pointer_dereference, \<sigma>)
        | Some st \<Rightarrow>
            (case Get st ID \<sigma> of
               (Panic p, \<sigma>') \<Rightarrow> (Panic p, \<sigma>')
             | (Return (result, err), \<sigma>') \<Rightarrow>
                 if err \<noteq> None then (Return err, \<sigma>')
                 else if 10 <s result
                   then (Return (Some (fmt_Errorf_d ''result too high: '' result)), \<sigma>')
                 else (Return None, \<sigma>')))"

text \<open>
  A store that, besides doing what \<open>st\<close> does, appends the identifier of every \<open>Get\<close>
  it receives to a log. It exists only to count and name the calls a client makes.
\<close>

definition recording :: "('s, 'x) Store \<Rightarrow> (goint list \<times> 's, 'x) Store" where
  "recording st =
     \<lparr>Get = (\<lambda>ID (log, \<sigma>). case Get st ID \<sigma> of (r, \<sigma>') \<Rightarrow> (r, (log @ [ID], \<sigma>')))\<rparr>"

section \<open>The tests' mock configurations\<close>

text \<open>\<open>m := new(database.MockStore); m.On("Get", ID).Return(v, err)\<close>\<close>

definition mock_returning :: "goint \<Rightarrow> goint \<Rightarrow> 'x error option \<Rightarrow> 'x MockStore" where
  "mock_returning ID v err =
     On_Return ''Get'' [int_object ID]
       [int_object v, (case err of None \<Rightarrow> nil_object | Some e \<Rightarrow> error_object e)]
       new_MockStore"

section \<open>Evaluation lemmas\<close>

lemma MockStore_Get_mock_returning:
  "MockStore_Get ID (mock_returning ID v err) =
     (Return (v, err),
      \<lparr>Mock = \<lparr>ExpectedCalls =
                 [\<lparr>Method = ''Get'', Arguments = [int_object ID],
                   ReturnArguments =
                     [int_object v, (case err of None \<Rightarrow> nil_object | Some e \<Rightarrow> error_object e)]\<rparr>],
               Calls = [\<lparr>Method = ''Get'', Arguments = [int_object ID], ReturnArguments = []\<rparr>]\<rparr>\<rparr>)"
  by (cases err)
     (simp_all add: MockStore_Get_def mock_returning_def On_Return_def new_MockStore_def
        Called_def Arguments_Get_def Arguments_Error_def)

section \<open>The decimal representation written by \<open>fmt_d\<close>\<close>

lemma digit_value_digit: "d < 10 \<Longrightarrow> digit_value (digit d) = d"
proof -
  assume "d < 10"
  then have "d \<in> {0, 1, 2, 3, 4, 5, 6, 7, 8, 9}" by auto
  then show ?thesis
    by (auto simp: digit_value_def digit_def)
qed

lemma is_digit_digit: "d < 10 \<Longrightarrow> is_digit (digit d)"
proof -
  assume "d < 10"
  then have "d \<in> {0, 1, 2, 3, 4, 5, 6, 7, 8, 9}" by auto
  then show ?thesis
    by (auto simp: is_digit_def digit_def)
qed

lemma decimal_value_snoc: "decimal_value (cs @ [c]) = 10 * decimal_value cs + digit_value c"
  by (simp add: decimal_value_def)

lemma decimal_value_digits: "decimal_value (digits n) = n"
proof (induction n rule: digits.induct)
  case (1 n)
  show ?case
  proof (cases "n < 10")
    case True
    then show ?thesis
      by (simp add: digits.simps [of n] decimal_value_def digit_value_digit)
  next
    case False
    with 1 have "decimal_value (digits (n div 10)) = n div 10" by simp
    with False show ?thesis
      by (simp add: digits.simps [of n] decimal_value_snoc digit_value_digit)
  qed
qed

lemma is_digit_digits: "list_all is_digit (digits n)"
proof (induction n rule: digits.induct)
  case (1 n)
  show ?case
  proof (cases "n < 10")
    case True
    then show ?thesis
      by (simp add: digits.simps [of n] is_digit_digit)
  next
    case False
    with 1 have "list_all is_digit (digits (n div 10))" by simp
    with False show ?thesis
      by (simp add: digits.simps [of n] is_digit_digit)
  qed
qed

lemma fmt_d_nonneg: "0 \<le> sint v \<Longrightarrow> fmt_d v = digits (nat (sint v))"
  by (simp add: fmt_d_def)

lemma fmt_d_24: "fmt_d 24 = ''24''"
  by (simp add: fmt_d_def digits.simps digit_def)

lemma fmt_d_11: "fmt_d 11 = ''11''"
  by (simp add: fmt_d_def digits.simps digit_def)

lemma fmt_d_negative: "fmt_d (- 24) = ''-24''"
  by (simp add: fmt_d_def digits.simps digit_def)

lemma fmt_d_sign:
  "fmt_d v = (if sint v < 0 then ''-'' else []) @ digits (nat \<bar>sint v\<bar>)"
  by (simp add: fmt_d_def)

section \<open>The tests of package service\<close>

text \<open>
  Each test builds a mock with one expectation, calls \<open>GetNumber(2)\<close> on
  \<open>Service{m}\<close>, asserts the expectations and compares the error.
\<close>

lemma GetNumber_mock_returning:
  "GetNumber (Some \<lparr>Store = MockStore_Store\<rparr>) ID (mock_returning ID v err) =
     ((if err \<noteq> None then Return err
       else if 10 <s v then Return (Some (fmt_Errorf_d ''result too high: '' v))
       else Return None),
      Some \<lparr>Store = MockStore_Store\<rparr>,
      snd (MockStore_Get ID (mock_returning ID v err)))"
  by (simp add: MockStore_Store_def MockStore_Get_mock_returning)

lemma AssertExpectations_mock_returning:
  "AssertExpectations (Mock (snd (MockStore_Get ID (mock_returning ID v err))))"
  by (simp add: MockStore_Get_mock_returning AssertExpectations_def)

lemma TestServiceSuccess:
  "fst (GetNumber (Some \<lparr>Store = MockStore_Store\<rparr>) 2 (mock_returning 2 7 None)) = Return None \<and>
   AssertExpectations
     (Mock (snd (snd (GetNumber (Some \<lparr>Store = MockStore_Store\<rparr>) 2 (mock_returning 2 7 None)))))"
  by (simp add: GetNumber_mock_returning AssertExpectations_mock_returning word_sless_alt
      del: GetNumber.simps)

lemma TestServiceResultTooHigh:
  "(\<exists>err. fst (GetNumber (Some \<lparr>Store = MockStore_Store\<rparr>) 2 (mock_returning 2 24 None)) =
            Return (Some err) \<and> Error err = ''result too high: 24'') \<and>
   AssertExpectations
     (Mock (snd (snd (GetNumber (Some \<lparr>Store = MockStore_Store\<rparr>) 2 (mock_returning 2 24 None)))))"
  by (simp add: GetNumber_mock_returning AssertExpectations_mock_returning fmt_Errorf_d_def
      errors_New_def fmt_d_24 del: GetNumber.simps)

lemma TestServiceStoreError:
  "(\<exists>err. fst (GetNumber (Some \<lparr>Store = MockStore_Store\<rparr>) 2
                 (mock_returning 2 0 (Some (errors_New ''failed'')))) =
            Return (Some err) \<and> Error err = ''failed'') \<and>
   AssertExpectations
     (Mock (snd (snd (GetNumber (Some \<lparr>Store = MockStore_Store\<rparr>) 2
                        (mock_returning 2 0 (Some (errors_New ''failed'')))))))"
  by (simp add: GetNumber_mock_returning AssertExpectations_mock_returning errors_New_def
      del: GetNumber.simps)

lemma unexpected_call_panics:
  "ID' \<noteq> ID \<Longrightarrow>
   GetNumber (Some \<lparr>Store = MockStore_Store\<rparr>) ID' (mock_returning ID v err) =
     (Panic unexpected_method_call, Some \<lparr>Store = MockStore_Store\<rparr>, mock_returning ID v err)"
  by (simp add: MockStore_Store_def MockStore_Get_def mock_returning_def On_Return_def
      new_MockStore_def Called_def)

section \<open>The validation contract of \<open>GetNumber\<close>\<close>

text \<open>
  C1. Whenever the store's \<open>Get\<close> returns a value \<open>v\<close> with the nil error and
  \<open>v \<le> 10\<close>, \<open>GetNumber\<close> returns nil.
\<close>

theorem GetNumber_valid:
  assumes "Get st ID \<sigma> = (Return (v, None), \<sigma>')" and "v \<le>s 10"
  shows "GetNumber (Some \<lparr>Store = Some st\<rparr>) ID \<sigma> = (Return None, Some \<lparr>Store = Some st\<rparr>, \<sigma>')"
  using assms by (simp add: word_sle_eq word_sless_alt)

theorem GetNumber_valid_witness:
  "(7 :: goint) \<le>s 10 \<and>
   fst (MockStore_Get 2 (mock_returning 2 7 (None :: unit error option))) = Return (7, None) \<and>
   GetNumber (Some \<lparr>Store = Some \<lparr>Get = MockStore_Get\<rparr>\<rparr>) 2 (mock_returning 2 7 (None :: unit error option)) =
     (Return None, Some \<lparr>Store = Some \<lparr>Get = MockStore_Get\<rparr>\<rparr>,
      snd (MockStore_Get 2 (mock_returning 2 7 None)))"
proof -
  obtain \<sigma>' where g: "Get \<lparr>Get = MockStore_Get\<rparr> 2 (mock_returning 2 7 (None :: unit error option)) =
      (Return (7, None), \<sigma>')"
    by (simp add: MockStore_Get_mock_returning)
  have le: "(7 :: goint) \<le>s 10" by simp
  from g have m: "MockStore_Get 2 (mock_returning 2 7 (None :: unit error option)) = (Return (7, None), \<sigma>')"
    by simp
  from GetNumber_valid [OF g le] le show ?thesis
    by (simp only: m fst_conv snd_conv simp_thms)
qed

text \<open>
  C2. Whenever the store's \<open>Get\<close> returns a value \<open>v\<close> with the nil error and
  \<open>v > 10\<close>, \<open>GetNumber\<close> returns an error whose message is exactly
  \<open>result too high: \<close> followed by the decimal representation of \<open>v\<close>: the digits
  \<open>fmt_d\<close> writes are decimal digits and read back as the value of \<open>v\<close>.
\<close>

theorem GetNumber_too_high:
  assumes "Get st ID \<sigma> = (Return (v, None), \<sigma>')" and "10 <s v"
  shows "\<exists>e. GetNumber (Some \<lparr>Store = Some st\<rparr>) ID \<sigma> = (Return (Some e), Some \<lparr>Store = Some st\<rparr>, \<sigma>')
           \<and> Error e = ''result too high: '' @ fmt_d v
           \<and> list_all is_digit (fmt_d v) \<and> decimal_value (fmt_d v) = nat (sint v)"
proof (intro exI conjI)
  show "GetNumber (Some \<lparr>Store = Some st\<rparr>) ID \<sigma> =
      (Return (Some (fmt_Errorf_d ''result too high: '' v)), Some \<lparr>Store = Some st\<rparr>, \<sigma>')"
    using assms by simp
  show "Error (fmt_Errorf_d ''result too high: '' v) = ''result too high: '' @ fmt_d v"
    by (simp add: fmt_Errorf_d_def errors_New_def)
  from assms(2) have pos: "0 \<le> sint v"
    by (simp add: word_sless_alt)
  then show "list_all is_digit (fmt_d v)"
    by (simp add: fmt_d_nonneg is_digit_digits)
  from pos show "decimal_value (fmt_d v) = nat (sint v)"
    by (simp add: fmt_d_nonneg decimal_value_digits)
qed

theorem GetNumber_too_high_witness:
  "(10 :: goint) <s 24 \<and>
   fst (MockStore_Get 2 (mock_returning 2 24 (None :: unit error option))) = Return (24, None) \<and>
   (\<exists>e. GetNumber (Some \<lparr>Store = Some \<lparr>Get = MockStore_Get\<rparr>\<rparr>) 2 (mock_returning 2 24 (None :: unit error option)) =
     (Return (Some e), Some \<lparr>Store = Some \<lparr>Get = MockStore_Get\<rparr>\<rparr>,
      snd (MockStore_Get 2 (mock_returning 2 24 None)))
     \<and> Error e = ''result too high: 24'')"
proof -
  obtain \<sigma>' where g: "Get \<lparr>Get = MockStore_Get\<rparr> 2 (mock_returning 2 24 (None :: unit error option)) =
      (Return (24, None), \<sigma>')"
    by (simp add: MockStore_Get_mock_returning)
  have lt: "(10 :: goint) <s 24" by simp
  from g have m: "MockStore_Get 2 (mock_returning 2 24 (None :: unit error option)) = (Return (24, None), \<sigma>')"
    by simp
  from GetNumber_too_high [OF g lt] obtain e where
    "GetNumber (Some \<lparr>Store = Some \<lparr>Get = MockStore_Get\<rparr>\<rparr>) 2 (mock_returning 2 24 (None :: unit error option)) =
       (Return (Some e), Some \<lparr>Store = Some \<lparr>Get = MockStore_Get\<rparr>\<rparr>, \<sigma>')"
    and "Error e = ''result too high: '' @ fmt_d 24"
    by blast
  then have "GetNumber (Some \<lparr>Store = Some \<lparr>Get = MockStore_Get\<rparr>\<rparr>) 2 (mock_returning 2 24 (None :: unit error option)) =
       (Return (Some e), Some \<lparr>Store = Some \<lparr>Get = MockStore_Get\<rparr>\<rparr>, snd (MockStore_Get 2 (mock_returning 2 24 None)))
     \<and> Error e = ''result too high: 24''"
    by (simp only: m snd_conv fmt_d_24) simp
  with lt m show ?thesis
    by (simp only: fst_conv simp_thms) blast
qed

text \<open>
  C3. Whenever the store's \<open>Get\<close> returns a non-nil error \<open>err\<close>, with whatever value,
  \<open>GetNumber\<close> returns that very error: it is not wrapped or replaced by a validation
  error, and the state is the one the single \<open>Get\<close> left, so nothing was retried.
\<close>

theorem GetNumber_store_error:
  assumes "Get st ID \<sigma> = (Return (v, Some err), \<sigma>')"
  shows "GetNumber (Some \<lparr>Store = Some st\<rparr>) ID \<sigma> = (Return (Some err), Some \<lparr>Store = Some st\<rparr>, \<sigma>')"
  using assms by simp

theorem GetNumber_store_error_witness:
  "fst (MockStore_Get 2 (mock_returning 2 0 (Some (errors_New ''failed'' :: unit error)))) =
     Return (0, Some (errors_New ''failed'')) \<and>
   fst (GetNumber (Some \<lparr>Store = Some \<lparr>Get = MockStore_Get\<rparr>\<rparr>) 2
          (mock_returning 2 0 (Some (errors_New ''failed'' :: unit error)))) =
     Return (Some (errors_New ''failed'')) \<and>
   Error (errors_New ''failed'' :: unit error) = ''failed'' \<and>
   fst (MockStore_Get 2 (mock_returning 2 24 (Some (otherError ''no rows'' ())))) =
     Return (24, Some (otherError ''no rows'' ())) \<and>
   fst (GetNumber (Some \<lparr>Store = Some \<lparr>Get = MockStore_Get\<rparr>\<rparr>) 2
          (mock_returning 2 24 (Some (otherError ''no rows'' ())))) =
     Return (Some (otherError ''no rows'' ()))"
proof -
  obtain \<sigma>' where g: "Get \<lparr>Get = MockStore_Get\<rparr> 2 (mock_returning 2 0 (Some (errors_New ''failed'' :: unit error))) =
      (Return (0, Some (errors_New ''failed'')), \<sigma>')"
    by (simp add: MockStore_Get_mock_returning)
  obtain \<tau>' where h: "Get \<lparr>Get = MockStore_Get\<rparr> 2 (mock_returning 2 24 (Some (otherError ''no rows'' ()))) =
      (Return (24, Some (otherError ''no rows'' ())), \<tau>')"
    by (simp add: MockStore_Get_mock_returning)
  from g have m: "MockStore_Get 2 (mock_returning 2 0 (Some (errors_New ''failed'' :: unit error))) =
      (Return (0, Some (errors_New ''failed'')), \<sigma>')"
    by simp
  from h have n: "MockStore_Get 2 (mock_returning 2 24 (Some (otherError ''no rows'' ()))) =
      (Return (24, Some (otherError ''no rows'' ())), \<tau>')"
    by simp
  have e: "Error (errors_New ''failed'' :: unit error) = ''failed''"
    by (simp add: errors_New_def)
  from GetNumber_store_error [OF g] GetNumber_store_error [OF h] e show ?thesis
    by (simp only: m n fst_conv simp_thms)
qed

text \<open>
  C4. The threshold is strict: a store returning \<open>10, nil\<close> makes \<open>GetNumber\<close> return
  nil, a store returning \<open>11, nil\<close> makes it return the error \<open>result too high: 11\<close>.
\<close>

theorem GetNumber_threshold:
  "(Get st ID \<sigma> = (Return (10, None), \<sigma>') \<longrightarrow>
      GetNumber (Some \<lparr>Store = Some st\<rparr>) ID \<sigma> = (Return None, Some \<lparr>Store = Some st\<rparr>, \<sigma>')) \<and>
   (Get st ID \<sigma> = (Return (11, None), \<sigma>') \<longrightarrow>
      GetNumber (Some \<lparr>Store = Some st\<rparr>) ID \<sigma> =
        (Return (Some (errorString ''result too high: 11'')), Some \<lparr>Store = Some st\<rparr>, \<sigma>'))"
  by (simp add: fmt_Errorf_d_def errors_New_def fmt_d_11)

theorem GetNumber_threshold_witness:
  "fst (MockStore_Get 2 (mock_returning 2 10 (None :: unit error option))) = Return (10, None) \<and>
   fst (GetNumber (Some \<lparr>Store = Some \<lparr>Get = MockStore_Get\<rparr>\<rparr>) 2
          (mock_returning 2 10 (None :: unit error option))) = Return None \<and>
   fst (MockStore_Get 2 (mock_returning 2 11 (None :: unit error option))) = Return (11, None) \<and>
   fst (GetNumber (Some \<lparr>Store = Some \<lparr>Get = MockStore_Get\<rparr>\<rparr>) 2
          (mock_returning 2 11 (None :: unit error option))) =
     Return (Some (errorString ''result too high: 11''))"
proof -
  obtain \<sigma>' where g: "Get \<lparr>Get = MockStore_Get\<rparr> 2 (mock_returning 2 10 (None :: unit error option)) =
      (Return (10, None), \<sigma>')"
    by (simp add: MockStore_Get_mock_returning)
  obtain \<tau>' where h: "Get \<lparr>Get = MockStore_Get\<rparr> 2 (mock_returning 2 11 (None :: unit error option)) =
      (Return (11, None), \<tau>')"
    by (simp add: MockStore_Get_mock_returning)
  from g have m: "MockStore_Get 2 (mock_returning 2 10 (None :: unit error option)) = (Return (10, None), \<sigma>')"
    by simp
  from h have n: "MockStore_Get 2 (mock_returning 2 11 (None :: unit error option)) = (Return (11, None), \<tau>')"
    by simp
  from GetNumber_threshold [of "\<lparr>Get = MockStore_Get\<rparr>" 2 "mock_returning 2 10 None" \<sigma>'] g
  have a: "GetNumber (Some \<lparr>Store = Some \<lparr>Get = MockStore_Get\<rparr>\<rparr>) 2
          (mock_returning 2 10 (None :: unit error option)) =
        (Return None, Some \<lparr>Store = Some \<lparr>Get = MockStore_Get\<rparr>\<rparr>, \<sigma>')"
    by blast
  from GetNumber_threshold [of "\<lparr>Get = MockStore_Get\<rparr>" 2 "mock_returning 2 11 None" \<tau>'] h
  have b: "GetNumber (Some \<lparr>Store = Some \<lparr>Get = MockStore_Get\<rparr>\<rparr>) 2
          (mock_returning 2 11 (None :: unit error option)) =
        (Return (Some (errorString ''result too high: 11'')), Some \<lparr>Store = Some \<lparr>Get = MockStore_Get\<rparr>\<rparr>, \<tau>')"
    by blast
  from a b show ?thesis
    by (simp only: m n fst_conv simp_thms)
qed

section \<open>The two injection styles\<close>

text \<open>
  C5. For every store (the nil interface included), identifier and state, the method of
  the struct \<open>Service{store}\<close> and the closure \<open>NewGetNumber(store)\<close> have the same
  outcome and leave the store in the same state.
\<close>

theorem struct_closure_equivalent:
  "(case GetNumber (Some \<lparr>Store = store\<rparr>) ID \<sigma> of (r, s', \<sigma>') \<Rightarrow> (r, \<sigma>')) =
     NewGetNumber store ID \<sigma>"
  by (simp add: NewGetNumber_def split: option.split prod.split outcome.split)

theorem struct_closure_equivalent_witness:
  "(case GetNumber (Some \<lparr>Store = Some \<lparr>Get = MockStore_Get\<rparr>\<rparr>) 2
           (mock_returning 2 7 (None :: unit error option)) of (r, s', \<sigma>') \<Rightarrow> (r, \<sigma>')) =
     NewGetNumber (Some \<lparr>Get = MockStore_Get\<rparr>) 2 (mock_returning 2 7 None) \<and>
   fst (NewGetNumber (Some \<lparr>Get = MockStore_Get\<rparr>) 2
          (mock_returning 2 7 (None :: unit error option))) = Return None \<and>
   (case GetNumber (Some \<lparr>Store = Some \<lparr>Get = MockStore_Get\<rparr>\<rparr>) 2
           (mock_returning 2 24 (None :: unit error option)) of (r, s', \<sigma>') \<Rightarrow> (r, \<sigma>')) =
     NewGetNumber (Some \<lparr>Get = MockStore_Get\<rparr>) 2 (mock_returning 2 24 None) \<and>
   fst (NewGetNumber (Some \<lparr>Get = MockStore_Get\<rparr>) 2
          (mock_returning 2 24 (None :: unit error option))) =
     Return (Some (errorString ''result too high: 24'')) \<and>
   (case GetNumber (Some \<lparr>Store = Some \<lparr>Get = MockStore_Get\<rparr>\<rparr>) 2
           (mock_returning 2 0 (Some (errorString ''failed'' :: unit error))) of (r, s', \<sigma>') \<Rightarrow> (r, \<sigma>')) =
     NewGetNumber (Some \<lparr>Get = MockStore_Get\<rparr>) 2 (mock_returning 2 0 (Some (errorString ''failed''))) \<and>
   fst (NewGetNumber (Some \<lparr>Get = MockStore_Get\<rparr>) 2
          (mock_returning 2 0 (Some (errorString ''failed'' :: unit error)))) =
     Return (Some (errorString ''failed''))"
proof -
  have a: "fst (NewGetNumber (Some \<lparr>Get = MockStore_Get\<rparr>) 2
          (mock_returning 2 7 (None :: unit error option))) = Return None"
    by (simp add: NewGetNumber_def MockStore_Get_mock_returning word_sless_alt)
  have b: "fst (NewGetNumber (Some \<lparr>Get = MockStore_Get\<rparr>) 2
          (mock_returning 2 24 (None :: unit error option))) =
     Return (Some (errorString ''result too high: 24''))"
    by (simp add: NewGetNumber_def MockStore_Get_mock_returning fmt_Errorf_d_def errors_New_def fmt_d_24)
  have c: "fst (NewGetNumber (Some \<lparr>Get = MockStore_Get\<rparr>) 2
          (mock_returning 2 0 (Some (errorString ''failed'' :: unit error)))) =
     Return (Some (errorString ''failed''))"
    by (simp add: NewGetNumber_def MockStore_Get_mock_returning)
  from a b c
    struct_closure_equivalent [of "Some \<lparr>Get = MockStore_Get\<rparr>" 2 "mock_returning 2 7 (None :: unit error option)"]
    struct_closure_equivalent [of "Some \<lparr>Get = MockStore_Get\<rparr>" 2 "mock_returning 2 24 (None :: unit error option)"]
    struct_closure_equivalent [of "Some \<lparr>Get = MockStore_Get\<rparr>" 2 "mock_returning 2 0 (Some (errorString ''failed'' :: unit error))"]
  show ?thesis
    by (intro conjI)
qed

section \<open>Effects of a call\<close>

text \<open>
  C6. \<open>GetNumber\<close> is a function of the pair the store returns: two calls, on whatever
  Services, stores, identifiers and states, in which \<open>Get\<close> returns the same value and
  error have the same outcome; and each call changes nothing of its own, the Service is
  the one it was and the state is the one \<open>Get\<close> left.
\<close>

theorem GetNumber_decision:
  assumes "Get st1 ID1 \<sigma>1 = (Return (v, e), \<sigma>1')" and "Get st2 ID2 \<sigma>2 = (Return (v, e), \<sigma>2')"
  shows "fst (GetNumber (Some \<lparr>Store = Some st1\<rparr>) ID1 \<sigma>1) =
           fst (GetNumber (Some \<lparr>Store = Some st2\<rparr>) ID2 \<sigma>2)
         \<and> snd (GetNumber (Some \<lparr>Store = Some st1\<rparr>) ID1 \<sigma>1) = (Some \<lparr>Store = Some st1\<rparr>, \<sigma>1')
         \<and> snd (GetNumber (Some \<lparr>Store = Some st2\<rparr>) ID2 \<sigma>2) = (Some \<lparr>Store = Some st2\<rparr>, \<sigma>2')"
  using assms by simp

theorem GetNumber_decision_witness:
  "fst (MockStore_Get 2 (mock_returning 2 24 (None :: unit error option))) = Return (24, None) \<and>
   fst (MockStore_Get 5 (mock_returning 5 24 (None :: unit error option))) = Return (24, None) \<and>
   fst (GetNumber (Some \<lparr>Store = Some \<lparr>Get = MockStore_Get\<rparr>\<rparr>) 2
          (mock_returning 2 24 (None :: unit error option))) =
     fst (GetNumber (Some \<lparr>Store = Some \<lparr>Get = MockStore_Get\<rparr>\<rparr>) 5
          (mock_returning 5 24 (None :: unit error option))) \<and>
   snd (snd (GetNumber (Some \<lparr>Store = Some \<lparr>Get = MockStore_Get\<rparr>\<rparr>) 2
          (mock_returning 2 24 (None :: unit error option)))) =
     snd (MockStore_Get 2 (mock_returning 2 24 None))"
proof -
  obtain \<sigma>' where g: "Get \<lparr>Get = MockStore_Get\<rparr> 2 (mock_returning 2 24 (None :: unit error option)) =
      (Return (24, None), \<sigma>')"
    by (simp add: MockStore_Get_mock_returning)
  obtain \<tau>' where h: "Get \<lparr>Get = MockStore_Get\<rparr> 5 (mock_returning 5 24 (None :: unit error option)) =
      (Return (24, None), \<tau>')"
    by (simp add: MockStore_Get_mock_returning)
  from g have m: "MockStore_Get 2 (mock_returning 2 24 (None :: unit error option)) = (Return (24, None), \<sigma>')"
    by simp
  from h have n: "MockStore_Get 5 (mock_returning 5 24 (None :: unit error option)) = (Return (24, None), \<tau>')"
    by simp
  from GetNumber_decision [OF g h] show ?thesis
    by (simp only: m n fst_conv snd_conv simp_thms)
qed

text \<open>
  C7. A call of \<open>GetNumber\<close> with identifier \<open>ID\<close> calls the store's \<open>Get\<close> exactly
  once, with \<open>ID\<close>: on a store that logs the identifiers it is asked for, the log grows
  by the single entry \<open>ID\<close> and the underlying state is the one a single \<open>Get\<close> on
  \<open>ID\<close> leaves, whether that lookup returns a value, returns an error or panics.
\<close>

theorem GetNumber_one_Get:
  "snd (snd (GetNumber (Some \<lparr>Store = Some (recording st)\<rparr>) ID (log, \<sigma>))) =
     (log @ [ID], snd (Get st ID \<sigma>))"
  by (simp add: recording_def split: prod.split outcome.split)

theorem GetNumber_one_Get_witness:
  "snd (snd (GetNumber (Some \<lparr>Store = Some (recording \<lparr>Get = MockStore_Get\<rparr>)\<rparr>) 2
               ([], mock_returning 2 7 (None :: unit error option)))) =
     ([2], snd (MockStore_Get 2 (mock_returning 2 7 None))) \<and>
   Calls (Mock (snd (MockStore_Get 2 (mock_returning 2 7 (None :: unit error option))))) =
     [\<lparr>Method = ''Get'', Arguments = [int_object 2], ReturnArguments = []\<rparr>] \<and>
   snd (snd (GetNumber (Some \<lparr>Store = Some (recording \<lparr>Get = MockStore_Get\<rparr>)\<rparr>) 2
               ([], mock_returning 2 0 (Some (errorString ''failed'' :: unit error))))) =
     ([2], snd (MockStore_Get 2 (mock_returning 2 0 (Some (errorString ''failed''))))) \<and>
   Calls (Mock (snd (MockStore_Get 2 (mock_returning 2 0 (Some (errorString ''failed'' :: unit error)))))) =
     [\<lparr>Method = ''Get'', Arguments = [int_object 2], ReturnArguments = []\<rparr>]"
proof -
  have a: "Calls (Mock (snd (MockStore_Get 2 (mock_returning 2 7 (None :: unit error option))))) =
     [\<lparr>Method = ''Get'', Arguments = [int_object 2], ReturnArguments = []\<rparr>]"
    by (simp add: MockStore_Get_mock_returning)
  have b: "Calls (Mock (snd (MockStore_Get 2 (mock_returning 2 0 (Some (errorString ''failed'' :: unit error)))))) =
     [\<lparr>Method = ''Get'', Arguments = [int_object 2], ReturnArguments = []\<rparr>]"
    by (simp add: MockStore_Get_mock_returning)
  from a b
    GetNumber_one_Get [of "\<lparr>Get = MockStore_Get\<rparr>" 2 "[]" "mock_returning 2 7 (None :: unit error option)"]
    GetNumber_one_Get [of "\<lparr>Get = MockStore_Get\<rparr>" 2 "[]" "mock_returning 2 0 (Some (errorString ''failed'' :: unit error))"]
  show ?thesis
    by (simp only: append_Nil Store.select_convs simp_thms)
qed

text \<open>
  C8. \<open>GetNumber\<close> leaves the Service as it was: after every call, whatever the
  receiver and the outcome, the receiver points to the same Service with the same
  \<open>Store\<close> field. The state changes only through the store's \<open>Get\<close>: it is untouched
  when the receiver or the \<open>Store\<close> field is nil, and otherwise it is what \<open>Get\<close> left.
\<close>

theorem GetNumber_frame:
  "fst (snd (GetNumber p ID \<sigma>)) = p \<and>
   snd (snd (GetNumber p ID \<sigma>)) =
     (case p of
        None \<Rightarrow> \<sigma>
      | Some s \<Rightarrow> (case Store s of None \<Rightarrow> \<sigma> | Some st \<Rightarrow> snd (Get st ID \<sigma>)))"
  by (cases p) (simp_all split: option.split prod.split outcome.split)

theorem GetNumber_frame_witness:
  "fst (snd (GetNumber (Some \<lparr>Store = Some \<lparr>Get = MockStore_Get\<rparr>\<rparr>) 2
               (mock_returning 2 7 (None :: unit error option)))) =
     Some \<lparr>Store = Some \<lparr>Get = MockStore_Get\<rparr>\<rparr> \<and>
   snd (snd (GetNumber (Some \<lparr>Store = Some \<lparr>Get = MockStore_Get\<rparr>\<rparr>) 2
               (mock_returning 2 7 (None :: unit error option)))) =
     snd (MockStore_Get 2 (mock_returning 2 7 None)) \<and>
   fst (snd (GetNumber (Some \<lparr>Store = (None :: (nat, unit) Store option)\<rparr>) 2 5)) =
     Some \<lparr>Store = None\<rparr> \<and>
   snd (snd (GetNumber (Some \<lparr>Store = (None :: (nat, unit) Store option)\<rparr>) 2 5)) = 5"
proof -
  from GetNumber_frame [of "Some \<lparr>Store = Some \<lparr>Get = MockStore_Get\<rparr>\<rparr>" 2 "mock_returning 2 7 (None :: unit error option)"]
    GetNumber_frame [of "Some \<lparr>Store = (None :: (nat, unit) Store option)\<rparr>" 2 5]
  show ?thesis
    by (simp del: GetNumber.simps)
qed

text \<open>
  C9. Nothing validates the store at construction: a Service whose \<open>Store\<close> field is the
  nil interface exists, and \<open>GetNumber\<close> on it panics with a nil dereference instead of
  returning; so does the closure built from the nil interface.
\<close>

theorem GetNumber_nil_Store:
  "GetNumber (Some \<lparr>Store = None\<rparr>) ID \<sigma> = (Panic nil_pointer_dereference, Some \<lparr>Store = None\<rparr>, \<sigma>) \<and>
   NewGetNumber None ID \<sigma> = (Panic nil_pointer_dereference, \<sigma>)"
  by (simp add: NewGetNumber_def)

theorem GetNumber_nil_Store_witness:
  "GetNumber (Some \<lparr>Store = (None :: (nat, unit) Store option)\<rparr>) 2 5 =
     (Panic nil_pointer_dereference, Some \<lparr>Store = None\<rparr>, 5) \<and>
   NewGetNumber (None :: (nat, unit) Store option) 2 5 = (Panic nil_pointer_dereference, 5)"
  by (rule GetNumber_nil_Store)

section \<open>The production store\<close>

text \<open>
  C10. The store \<open>NewStore\<close> builds is a non-nil interface value whose \<open>Get\<close> returns
  \<open>0, nil\<close> for every identifier and leaves the state as it was; a Service composed
  with it returns nil from \<open>GetNumber\<close> for every identifier.
\<close>

theorem NewStore_always_valid:
  "(\<exists>st. NewStore db' = Some st \<and> Get st ID \<sigma> = (Return (0, None), \<sigma>)) \<and>
   GetNumber (Some \<lparr>Store = NewStore db'\<rparr>) ID \<sigma> = (Return None, Some \<lparr>Store = NewStore db'\<rparr>, \<sigma>)"
  by (simp add: NewStore_def store_Get_def word_sless_alt)

theorem NewStore_always_valid_witness:
  "(\<exists>st. (NewStore () :: (nat, unit) Store option) = Some st \<and> Get st 42 5 = (Return (0, None), 5)) \<and>
   GetNumber (Some \<lparr>Store = (NewStore () :: (nat, unit) Store option)\<rparr>) 42 5 =
     (Return None, Some \<lparr>Store = NewStore ()\<rparr>, 5)"
  by (rule NewStore_always_valid)

end
